theory Spec2Isabelle
  imports Main "HOL-Library.Word"
begin

section \<open>The OCaml stubs of the tree-sitter binding (tree\_sitter\_stubs.c)\<close>

text \<open>
  The file \<^verbatim>\<open>jasmin-lsp/TreeSitter/tree_sitter_stubs.c\<close> exposes the C API of the
  tree-sitter library to OCaml. Every stub marshals its arguments, calls one function of
  the library, and marshals the result back. The library itself (\<^verbatim>\<open>tree_sitter/api.h\<close>,
  the parser, the trees) and the generated grammar \<^verbatim>\<open>tree_sitter_jasmin\<close> are not part
  of the repository: the stubs below take them as a parameter, a record \<open>ts_api\<close> with
  one field per library function the stubs call. A theorem stated for an arbitrary
  \<open>api\<close> holds whatever the library does.

  The target is the 64-bit OCaml runtime: a pointer and an \<^verbatim>\<open>intnat\<close> have 64 bits, an
  OCaml \<^verbatim>\<open>int\<close> has 63 bits, \<^verbatim>\<open>uint32_t\<close> has 32.
\<close>

subsection \<open>C and OCaml data\<close>

type_synonym u32 = "32 word"
type_synonym u16 = "16 word"

text \<open>A C pointer; \<open>0\<close> is \<^verbatim>\<open>NULL\<close>.\<close>
type_synonym ptr = "64 word"

text \<open>
  An OCaml \<^verbatim>\<open>int\<close>. \<^verbatim>\<open>Val_int\<close> of an unsigned 32-bit (or 16-bit) C value is exact,
  since \<open>2 ^ 32 < 2 ^ 62\<close>; \<^verbatim>\<open>Int_val\<close> assigned to a \<^verbatim>\<open>uint32_t\<close> keeps the low
  32 bits.
\<close>
type_synonym ml_int = int

definition Val_int :: "'a::len word \<Rightarrow> ml_int" where
  "Val_int x = uint x"

definition Int_val_u32 :: "ml_int \<Rightarrow> u32" where
  "Int_val_u32 v = word_of_int v"

text \<open>\<^verbatim>\<open>uint32_t length = caml_string_length(v)\<close>: the 64-bit length, narrowed.\<close>
definition caml_string_length_u32 :: "string \<Rightarrow> u32" where
  "caml_string_length_u32 s = of_nat (length s)"

record TSPoint =
  row :: u32
  column :: u32

text \<open>\<^verbatim>\<open>TSNode\<close>: \<^verbatim>\<open>uint32_t context[4]; const void *id; const TSTree *tree\<close>.\<close>
record TSNode =
  context0 :: u32
  context1 :: u32
  context2 :: u32
  context3 :: u32
  node_id :: ptr
  node_tree :: ptr

text \<open>
  The OCaml block \<^verbatim>\<open>alloc_node\<close> builds: four boxed \<^verbatim>\<open>Int32\<close> and two boxed
  \<^verbatim>\<open>Nativeint\<close>. The casts \<^verbatim>\<open>uint32_t\<close> to \<^verbatim>\<open>int32_t\<close> and pointer to \<^verbatim>\<open>intnat\<close>
  keep every bit, so a field is the same word read with the other signedness.
\<close>
record ml_node =
  field0 :: u32
  field1 :: u32
  field2 :: u32
  field3 :: u32
  field4 :: ptr
  field5 :: ptr

record ml_point =
  point_field0 :: ml_int
  point_field1 :: ml_int

record ml_range =
  range_field0 :: ml_point
  range_field1 :: ml_point
  range_field2 :: ml_int
  range_field3 :: ml_int

text \<open>
  How a stub call can stop without a value: \<^verbatim>\<open>caml_failwith\<close> raises the OCaml
  exception \<open>Failure\<close>; \<open>Undefined\<close> marks a C operation outside its contract
  (\<^verbatim>\<open>strcmp\<close> of \<^verbatim>\<open>NULL\<close>).
\<close>
datatype stop = Failure string | Undefined string

text \<open>One \<^verbatim>\<open>fprintf(stderr, fmt, args)\<close>: the format (without its final newline) and
  the arguments.\<close>
datatype log_arg = Arg_ptr ptr | Arg_u32 u32 | Arg_bool bool

type_synonym log_line = "string \<times> log_arg list"

subsection \<open>The library, as a parameter\<close>

text \<open>
  \<open>'l\<close> is the state of the library (its parsers and trees). A function that changes it
  returns the new state. \<^verbatim>\<open>TREE_SITTER_LANGUAGE_VERSION\<close> is a macro of the library's
  header; \<open>tree_sitter_jasmin\<close> returns the address of the generated grammar.
\<close>
record 'l ts_parser_api =
  TREE_SITTER_LANGUAGE_VERSION :: u32
  tree_sitter_jasmin :: ptr
  ts_language_abi_version :: "ptr \<Rightarrow> 'l \<Rightarrow> u32"
  ts_parser_new :: "'l \<Rightarrow> ptr \<times> 'l"
  ts_parser_delete :: "ptr \<Rightarrow> 'l \<Rightarrow> 'l"
  ts_parser_set_language :: "ptr \<Rightarrow> ptr \<Rightarrow> 'l \<Rightarrow> bool \<times> 'l"
  ts_parser_parse_string :: "ptr \<Rightarrow> ptr \<Rightarrow> string \<Rightarrow> u32 \<Rightarrow> 'l \<Rightarrow> ptr \<times> 'l"
  ts_tree_root_node :: "ptr \<Rightarrow> 'l \<Rightarrow> TSNode"
  ts_tree_delete :: "ptr \<Rightarrow> 'l \<Rightarrow> 'l"
  ts_tree_copy :: "ptr \<Rightarrow> 'l \<Rightarrow> ptr \<times> 'l"

record 'l ts_api = "'l ts_parser_api" +
  ts_node_is_null :: "TSNode \<Rightarrow> bool"
  ts_node_type :: "TSNode \<Rightarrow> 'l \<Rightarrow> string option"
  ts_node_symbol :: "TSNode \<Rightarrow> 'l \<Rightarrow> u16"
  ts_node_is_named :: "TSNode \<Rightarrow> 'l \<Rightarrow> bool"
  ts_node_has_error :: "TSNode \<Rightarrow> 'l \<Rightarrow> bool"
  ts_node_is_missing :: "TSNode \<Rightarrow> 'l \<Rightarrow> bool"
  ts_node_start_point :: "TSNode \<Rightarrow> 'l \<Rightarrow> TSPoint"
  ts_node_end_point :: "TSNode \<Rightarrow> 'l \<Rightarrow> TSPoint"
  ts_node_start_byte :: "TSNode \<Rightarrow> 'l \<Rightarrow> u32"
  ts_node_end_byte :: "TSNode \<Rightarrow> 'l \<Rightarrow> u32"
  ts_node_child_count :: "TSNode \<Rightarrow> 'l \<Rightarrow> u32"
  ts_node_child :: "TSNode \<Rightarrow> u32 \<Rightarrow> 'l \<Rightarrow> TSNode"
  ts_node_named_child_count :: "TSNode \<Rightarrow> 'l \<Rightarrow> u32"
  ts_node_named_child :: "TSNode \<Rightarrow> u32 \<Rightarrow> 'l \<Rightarrow> TSNode"
  ts_node_child_by_field_name :: "TSNode \<Rightarrow> string \<Rightarrow> u32 \<Rightarrow> 'l \<Rightarrow> TSNode"
  ts_node_parent :: "TSNode \<Rightarrow> 'l \<Rightarrow> TSNode"
  ts_node_next_sibling :: "TSNode \<Rightarrow> 'l \<Rightarrow> TSNode"
  ts_node_prev_sibling :: "TSNode \<Rightarrow> 'l \<Rightarrow> TSNode"
  ts_node_next_named_sibling :: "TSNode \<Rightarrow> 'l \<Rightarrow> TSNode"
  ts_node_prev_named_sibling :: "TSNode \<Rightarrow> 'l \<Rightarrow> TSNode"
  ts_node_descendant_for_point_range :: "TSNode \<Rightarrow> TSPoint \<Rightarrow> TSPoint \<Rightarrow> 'l \<Rightarrow> TSNode"
  ts_node_named_descendant_for_point_range :: "TSNode \<Rightarrow> TSPoint \<Rightarrow> TSPoint \<Rightarrow> 'l \<Rightarrow> TSNode"

subsection \<open>The state a stub runs in\<close>

text \<open>
  \<open>lib\<close> is the library's state; \<open>blocks\<close> holds the payload of every OCaml custom
  block (the \<^verbatim>\<open>TSParser *\<close>, \<^verbatim>\<open>TSTree *\<close> or \<^verbatim>\<open>TSLanguage *\<close> it wraps), by block
  number; \<open>next_block\<close> is the number \<^verbatim>\<open>caml_alloc_custom\<close> gives next; \<open>stderr\<close> is what
  has been printed.
\<close>
record 'l world =
  lib :: 'l
  blocks :: "nat \<Rightarrow> ptr"
  next_block :: nat
  stderr :: "log_line list"

type_synonym ('l, 'a) stub = "'l world \<Rightarrow> (stop + 'a) \<times> 'l world"

definition fprintf_stderr :: "string \<Rightarrow> log_arg list \<Rightarrow> 'l world \<Rightarrow> 'l world" where
  "fprintf_stderr fmt args w = w\<lparr>stderr := stderr w @ [(fmt, args)]\<rparr>"

text \<open>\<^verbatim>\<open>Data_custom_val\<close>, read as the pointer it holds: \<^verbatim>\<open>Parser_val\<close>, \<^verbatim>\<open>Tree_val\<close>
  and \<^verbatim>\<open>Language_val\<close> are this one macro at three pointer types.\<close>
definition Parser_val :: "'l world \<Rightarrow> nat \<Rightarrow> ptr" where
  "Parser_val w v = blocks w v"

definition Tree_val :: "'l world \<Rightarrow> nat \<Rightarrow> ptr" where
  "Tree_val w v = blocks w v"

definition Language_val :: "'l world \<Rightarrow> nat \<Rightarrow> ptr" where
  "Language_val w v = blocks w v"

definition set_custom_val :: "nat \<Rightarrow> ptr \<Rightarrow> 'l world \<Rightarrow> 'l world" where
  "set_custom_val v p w = w\<lparr>blocks := (blocks w)(v := p)\<rparr>"

text \<open>\<^verbatim>\<open>caml_alloc_custom\<close> followed by the store of the pointer: \<^verbatim>\<open>alloc_parser\<close>,
  \<^verbatim>\<open>alloc_tree\<close> and \<^verbatim>\<open>alloc_language\<close> differ in the finaliser only.\<close>
definition alloc_custom :: "ptr \<Rightarrow> 'l world \<Rightarrow> nat \<times> 'l world" where
  "alloc_custom p w =
     (next_block w, w\<lparr>blocks := (blocks w)(next_block w := p), next_block := Suc (next_block w)\<rparr>)"

definition alloc_parser :: "ptr \<Rightarrow> 'l world \<Rightarrow> nat \<times> 'l world" where
  "alloc_parser parser w = alloc_custom parser w"

definition alloc_tree :: "ptr \<Rightarrow> 'l world \<Rightarrow> nat \<times> 'l world" where
  "alloc_tree tree w = alloc_custom tree w"

definition alloc_language :: "ptr \<Rightarrow> 'l world \<Rightarrow> nat \<times> 'l world" where
  "alloc_language lang w = alloc_custom lang w"

definition alloc_node :: "TSNode \<Rightarrow> ml_node" where
  "alloc_node node =
     \<lparr>field0 = context0 node, field1 = context1 node, field2 = context2 node,
      field3 = context3 node, field4 = node_id node, field5 = node_tree node\<rparr>"

definition node_val :: "ml_node \<Rightarrow> TSNode" where
  "node_val v =
     \<lparr>context0 = field0 v, context1 = field1 v, context2 = field2 v,
      context3 = field3 v, node_id = field4 v, node_tree = field5 v\<rparr>"

definition alloc_point :: "TSPoint \<Rightarrow> ml_point" where
  "alloc_point point = \<lparr>point_field0 = Val_int (row point), point_field1 = Val_int (column point)\<rparr>"

definition point_val :: "ml_point \<Rightarrow> TSPoint" where
  "point_val v = \<lparr>row = Int_val_u32 (point_field0 v), column = Int_val_u32 (point_field1 v)\<rparr>"

definition alloc_range :: "'l ts_api \<Rightarrow> TSNode \<Rightarrow> 'l \<Rightarrow> ml_range" where
  "alloc_range api node l =
     \<lparr>range_field0 = alloc_point (ts_node_start_point api node l),
      range_field1 = alloc_point (ts_node_end_point api node l),
      range_field2 = Val_int (ts_node_start_byte api node l),
      range_field3 = Val_int (ts_node_end_byte api node l)\<rparr>"

subsection \<open>The stubs: parsers, languages, trees\<close>

text \<open>
  Each definition follows its C function line by line. The finalisers
  (\<^verbatim>\<open>parser_finalize\<close>, \<^verbatim>\<open>tree_finalize\<close>) are run by the garbage collector and are no
  stubs; they are left out.
\<close>

definition caml_ts_parser_new :: "'l ts_api \<Rightarrow> unit \<Rightarrow> ('l, nat) stub" where
  "caml_ts_parser_new api u w =
     (let (parser, l) = ts_parser_new api (lib w);
          (v, w1) = alloc_parser parser (w\<lparr>lib := l\<rparr>)
      in (Inr v, w1))"

definition caml_ts_parser_delete :: "'l ts_api \<Rightarrow> nat \<Rightarrow> ('l, unit) stub" where
  "caml_ts_parser_delete api v_parser w =
     (let parser = Parser_val w v_parser;
          w1 = w\<lparr>lib := ts_parser_delete api parser (lib w)\<rparr>
      in (Inr (), set_custom_val v_parser 0 w1))"

definition caml_ts_parser_set_language :: "'l ts_api \<Rightarrow> nat \<Rightarrow> nat \<Rightarrow> ('l, unit) stub" where
  "caml_ts_parser_set_language api v_parser v_language w =
     (let parser = Parser_val w v_parser;
          language = Language_val w v_language;
          w1 = fprintf_stderr ''[C DEBUG] Setting language %p on parser %p''
                 [Arg_ptr language, Arg_ptr parser] w;
          w2 = fprintf_stderr ''[C DEBUG] Language ABI version: %u''
                 [Arg_u32 (ts_language_abi_version api language (lib w1))] w1;
          w3 = fprintf_stderr ''[C DEBUG] Expected ABI version: %u''
                 [Arg_u32 (TREE_SITTER_LANGUAGE_VERSION api)] w2;
          (success, l) = ts_parser_set_language api parser language (lib w3);
          w4 = fprintf_stderr ''[C DEBUG] Set language result: %d''
                 [Arg_bool success] (w3\<lparr>lib := l\<rparr>);
          w5 = (if \<not> success
                then fprintf_stderr
                       ''[C DEBUG] ERROR: Failed to set language! ABI version mismatch?'' [] w4
                else w4)
      in (Inr (), w5))"

definition caml_ts_language_jasmin :: "'l ts_api \<Rightarrow> unit \<Rightarrow> ('l, nat) stub" where
  "caml_ts_language_jasmin api u w =
     (let w1 = fprintf_stderr ''[C DEBUG] Getting Jasmin language'' [] w;
          lang = tree_sitter_jasmin api;
          w2 = fprintf_stderr ''[C DEBUG] Jasmin language pointer: %p'' [Arg_ptr lang] w1;
          (v, w3) = alloc_language lang w2
      in (Inr v, w3))"

definition caml_ts_parser_parse_string ::
  "'l ts_api \<Rightarrow> nat \<Rightarrow> string \<Rightarrow> ('l, nat option) stub" where
  "caml_ts_parser_parse_string api v_parser v_string w =
     (let parser = Parser_val w v_parser;
          source = v_string;
          len = caml_string_length_u32 v_string;
          (tree, l) = ts_parser_parse_string api parser 0 source len (lib w);
          w1 = w\<lparr>lib := l\<rparr>
      in if tree = 0 then (Inr None, w1)
         else (let (v, w2) = alloc_tree tree w1 in (Inr (Some v), w2)))"

definition caml_ts_parser_parse_string_with_tree ::
  "'l ts_api \<Rightarrow> nat \<Rightarrow> nat option \<Rightarrow> string \<Rightarrow> ('l, nat option) stub" where
  "caml_ts_parser_parse_string_with_tree api v_parser v_old_tree v_string w =
     (let parser = Parser_val w v_parser;
          source = v_string;
          len = caml_string_length_u32 v_string;
          w1 = fprintf_stderr ''[C DEBUG] Parsing %d bytes'' [Arg_u32 len] w;
          (old_tree, w2) =
            (case v_old_tree of
               None \<Rightarrow> (0, w1)
             | Some v \<Rightarrow> (Tree_val w1 v, fprintf_stderr ''[C DEBUG] Using old tree'' [] w1));
          (tree, l) = ts_parser_parse_string api parser old_tree source len (lib w2);
          w3 = w2\<lparr>lib := l\<rparr>
      in if tree = 0
         then (Inr None, fprintf_stderr ''[C DEBUG] Parser returned NULL!'' [] w3)
         else (let w4 = fprintf_stderr ''[C DEBUG] Parser succeeded, creating OCaml value'' [] w3;
                   (v, w5) = alloc_tree tree w4
               in (Inr (Some v), w5)))"

definition caml_ts_tree_root_node :: "'l ts_api \<Rightarrow> nat \<Rightarrow> ('l, ml_node) stub" where
  "caml_ts_tree_root_node api v_tree w =
     (let tree = Tree_val w v_tree
      in if tree = 0
         then (Inl (Failure ''tree_root_node: NULL tree''),
               fprintf_stderr ''[C DEBUG] ERROR: tree_root_node called on NULL tree!'' [] w)
         else (let root = ts_tree_root_node api tree (lib w)
               in (Inr (alloc_node root), w)))"

definition caml_ts_tree_delete :: "'l ts_api \<Rightarrow> nat \<Rightarrow> ('l, unit) stub" where
  "caml_ts_tree_delete api v_tree w =
     (let tree = Tree_val w v_tree
      in if tree \<noteq> 0
         then (let w1 = fprintf_stderr ''[C DEBUG] Manually deleting tree %p'' [Arg_ptr tree] w;
                   w2 = w1\<lparr>lib := ts_tree_delete api tree (lib w1)\<rparr>
               in (Inr (), set_custom_val v_tree 0 w2))
         else (Inr (), w))"

definition caml_ts_tree_copy :: "'l ts_api \<Rightarrow> nat \<Rightarrow> ('l, nat) stub" where
  "caml_ts_tree_copy api v_tree w =
     (let tree = Tree_val w v_tree;
          (copy, l) = ts_tree_copy api tree (lib w);
          (v, w1) = alloc_tree copy (w\<lparr>lib := l\<rparr>)
      in (Inr v, w1))"

subsection \<open>The stubs: node accessors\<close>

definition caml_ts_node_type :: "'l ts_api \<Rightarrow> ml_node \<Rightarrow> ('l, string) stub" where
  "caml_ts_node_type api v_node w =
     (let node = node_val v_node
      in if ts_node_is_null api node
         then (Inr ''null'', fprintf_stderr ''[C DEBUG] node_type: node is null!'' [] w)
         else (case ts_node_type api node (lib w) of
                 None \<Rightarrow>
                   (Inr ''unknown'',
                    fprintf_stderr ''[C DEBUG] WARNING: ts_node_type returned NULL!'' [] w)
               | Some type \<Rightarrow> (Inr type, w)))"

definition caml_ts_node_symbol :: "'l ts_api \<Rightarrow> ml_node \<Rightarrow> ('l, ml_int) stub" where
  "caml_ts_node_symbol api v_node w =
     (let node = node_val v_node;
          symbol = ts_node_symbol api node (lib w)
      in (Inr (Val_int symbol), w))"

definition caml_ts_node_is_named :: "'l ts_api \<Rightarrow> ml_node \<Rightarrow> ('l, bool) stub" where
  "caml_ts_node_is_named api v_node w =
     (let node = node_val v_node in (Inr (ts_node_is_named api node (lib w)), w))"

definition caml_ts_node_has_error :: "'l ts_api \<Rightarrow> ml_node \<Rightarrow> ('l, bool) stub" where
  "caml_ts_node_has_error api v_node w =
     (let w1 = fprintf_stderr ''[C DEBUG] node_has_error called'' [] w;
          node = node_val v_node;
          w2 = fprintf_stderr ''[C DEBUG] got TSNode, checking if null'' [] w1
      in if ts_node_is_null api node
         then (Inr False, fprintf_stderr ''[C DEBUG] node is null!'' [] w2)
         else (let w3 = fprintf_stderr ''[C DEBUG] node is valid, calling ts_node_has_error'' [] w2;
                   has_error = ts_node_has_error api node (lib w3);
                   w4 = fprintf_stderr ''[C DEBUG] ts_node_has_error returned: %d''
                          [Arg_bool has_error] w3
               in (Inr has_error, w4)))"

definition caml_ts_node_is_missing :: "'l ts_api \<Rightarrow> ml_node \<Rightarrow> ('l, bool) stub" where
  "caml_ts_node_is_missing api v_node w =
     (let node = node_val v_node in (Inr (ts_node_is_missing api node (lib w)), w))"

definition caml_ts_node_range :: "'l ts_api \<Rightarrow> ml_node \<Rightarrow> ('l, ml_range) stub" where
  "caml_ts_node_range api v_node w =
     (let node = node_val v_node in (Inr (alloc_range api node (lib w)), w))"

definition caml_ts_node_start_point :: "'l ts_api \<Rightarrow> ml_node \<Rightarrow> ('l, ml_point) stub" where
  "caml_ts_node_start_point api v_node w =
     (let node = node_val v_node
      in (Inr (alloc_point (ts_node_start_point api node (lib w))), w))"

definition caml_ts_node_end_point :: "'l ts_api \<Rightarrow> ml_node \<Rightarrow> ('l, ml_point) stub" where
  "caml_ts_node_end_point api v_node w =
     (let node = node_val v_node
      in (Inr (alloc_point (ts_node_end_point api node (lib w))), w))"

definition caml_ts_node_start_byte :: "'l ts_api \<Rightarrow> ml_node \<Rightarrow> ('l, ml_int) stub" where
  "caml_ts_node_start_byte api v_node w =
     (let node = node_val v_node in (Inr (Val_int (ts_node_start_byte api node (lib w))), w))"

definition caml_ts_node_end_byte :: "'l ts_api \<Rightarrow> ml_node \<Rightarrow> ('l, ml_int) stub" where
  "caml_ts_node_end_byte api v_node w =
     (let node = node_val v_node in (Inr (Val_int (ts_node_end_byte api node (lib w))), w))"

definition caml_ts_node_child_count :: "'l ts_api \<Rightarrow> ml_node \<Rightarrow> ('l, ml_int) stub" where
  "caml_ts_node_child_count api v_node w =
     (let node = node_val v_node in (Inr (Val_int (ts_node_child_count api node (lib w))), w))"

definition caml_ts_node_named_child_count :: "'l ts_api \<Rightarrow> ml_node \<Rightarrow> ('l, ml_int) stub" where
  "caml_ts_node_named_child_count api v_node w =
     (let node = node_val v_node
      in (Inr (Val_int (ts_node_named_child_count api node (lib w))), w))"

subsection \<open>The stubs: navigation\<close>

text \<open>
  Every navigation stub has the same shape: call the library, return \<^verbatim>\<open>Val_none\<close> when
  \<^verbatim>\<open>ts_node_is_null\<close> holds of the result and \<^verbatim>\<open>Val_some(alloc_node(...))\<close> otherwise.
  An index arrives as an OCaml \<^verbatim>\<open>int\<close> and is stored in a \<^verbatim>\<open>uint32_t\<close>.
\<close>

definition caml_ts_node_child :: "'l ts_api \<Rightarrow> ml_node \<Rightarrow> ml_int \<Rightarrow> ('l, ml_node option) stub" where
  "caml_ts_node_child api v_node v_index w =
     (let node = node_val v_node;
          index = Int_val_u32 v_index;
          child = ts_node_child api node index (lib w)
      in if ts_node_is_null api child then (Inr None, w)
         else (Inr (Some (alloc_node child)), w))"

definition caml_ts_node_named_child :: "'l ts_api \<Rightarrow> ml_node \<Rightarrow> ml_int \<Rightarrow> ('l, ml_node option) stub" where
  "caml_ts_node_named_child api v_node v_index w =
     (let node = node_val v_node;
          index = Int_val_u32 v_index;
          child = ts_node_named_child api node index (lib w)
      in if ts_node_is_null api child then (Inr None, w)
         else (Inr (Some (alloc_node child)), w))"

definition caml_ts_node_child_by_field_name ::
  "'l ts_api \<Rightarrow> ml_node \<Rightarrow> string \<Rightarrow> ('l, ml_node option) stub" where
  "caml_ts_node_child_by_field_name api v_node v_field_name w =
     (let node = node_val v_node;
          field_name = v_field_name;
          field_name_length = caml_string_length_u32 v_field_name;
          child = ts_node_child_by_field_name api node field_name field_name_length (lib w)
      in if ts_node_is_null api child then (Inr None, w)
         else (Inr (Some (alloc_node child)), w))"

definition caml_ts_node_parent :: "'l ts_api \<Rightarrow> ml_node \<Rightarrow> ('l, ml_node option) stub" where
  "caml_ts_node_parent api v_node w =
     (let node = node_val v_node;
          parent = ts_node_parent api node (lib w)
      in if ts_node_is_null api parent then (Inr None, w)
         else (Inr (Some (alloc_node parent)), w))"

definition caml_ts_node_next_sibling :: "'l ts_api \<Rightarrow> ml_node \<Rightarrow> ('l, ml_node option) stub" where
  "caml_ts_node_next_sibling api v_node w =
     (let node = node_val v_node;
          sibling = ts_node_next_sibling api node (lib w)
      in if ts_node_is_null api sibling then (Inr None, w)
         else (Inr (Some (alloc_node sibling)), w))"

definition caml_ts_node_prev_sibling :: "'l ts_api \<Rightarrow> ml_node \<Rightarrow> ('l, ml_node option) stub" where
  "caml_ts_node_prev_sibling api v_node w =
     (let node = node_val v_node;
          sibling = ts_node_prev_sibling api node (lib w)
      in if ts_node_is_null api sibling then (Inr None, w)
         else (Inr (Some (alloc_node sibling)), w))"

definition caml_ts_node_next_named_sibling :: "'l ts_api \<Rightarrow> ml_node \<Rightarrow> ('l, ml_node option) stub" where
  "caml_ts_node_next_named_sibling api v_node w =
     (let node = node_val v_node;
          sibling = ts_node_next_named_sibling api node (lib w)
      in if ts_node_is_null api sibling then (Inr None, w)
         else (Inr (Some (alloc_node sibling)), w))"

definition caml_ts_node_prev_named_sibling :: "'l ts_api \<Rightarrow> ml_node \<Rightarrow> ('l, ml_node option) stub" where
  "caml_ts_node_prev_named_sibling api v_node w =
     (let node = node_val v_node;
          sibling = ts_node_prev_named_sibling api node (lib w)
      in if ts_node_is_null api sibling then (Inr None, w)
         else (Inr (Some (alloc_node sibling)), w))"

definition caml_ts_node_descendant_for_point_range ::
  "'l ts_api \<Rightarrow> ml_node \<Rightarrow> ml_point \<Rightarrow> ml_point \<Rightarrow> ('l, ml_node option) stub" where
  "caml_ts_node_descendant_for_point_range api v_node v_start v_end w =
     (let node = node_val v_node;
          start = point_val v_start;
          endp = point_val v_end;
          descendant = ts_node_descendant_for_point_range api node start endp (lib w)
      in if ts_node_is_null api descendant then (Inr None, w)
         else (Inr (Some (alloc_node descendant)), w))"

definition caml_ts_node_named_descendant_for_point_range ::
  "'l ts_api \<Rightarrow> ml_node \<Rightarrow> ml_point \<Rightarrow> ml_point \<Rightarrow> ('l, ml_node option) stub" where
  "caml_ts_node_named_descendant_for_point_range api v_node v_start v_end w =
     (let node = node_val v_node;
          start = point_val v_start;
          endp = point_val v_end;
          descendant = ts_node_named_descendant_for_point_range api node start endp (lib w)
      in if ts_node_is_null api descendant then (Inr None, w)
         else (Inr (Some (alloc_node descendant)), w))"

subsection \<open>The stubs: node text and the error test\<close>

text \<open>
  \<^verbatim>\<open>caml_ts_node_text\<close> works on the bytes of OCaml strings through C pointers, so it
  is modelled over the memory: a byte at every address. An OCaml string value is the
  address of its first byte (\<^verbatim>\<open>String_val\<close> is a cast), and \<open>bytes_at m a n\<close> are the
  \<open>n\<close> bytes that the memory \<open>m\<close> holds from the address \<open>a\<close> on.
\<close>
type_synonym memory = "ptr \<Rightarrow> char"

definition bytes_at :: "memory \<Rightarrow> ptr \<Rightarrow> nat \<Rightarrow> string" where
  "bytes_at m a n = map (\<lambda>i. m (a + of_nat i)) [0..<n]"

text \<open>
  \<^verbatim>\<open>memcpy(dst, src, n)\<close>. C defines it for ranges that do not overlap; where they do,
  this definition reads every byte before it writes one, and the theorems below that
  speak of a copy assume \<open>\<not> ranges_overlap dst src n\<close>.
\<close>
definition memcpy :: "ptr \<Rightarrow> ptr \<Rightarrow> nat \<Rightarrow> memory \<Rightarrow> memory" where
  "memcpy dst src n m = (\<lambda>a. if unat (a - dst) < n then m (src + (a - dst)) else m a)"

definition ranges_overlap :: "ptr \<Rightarrow> ptr \<Rightarrow> nat \<Rightarrow> bool" where
  "ranges_overlap dst src n = (unat (src - dst) < n \<or> unat (dst - src) < n)"

text \<open>
  The OCaml runtime is not part of the repository either: \<^verbatim>\<open>caml_alloc_string\<close> is a
  parameter, a function from the length asked for and the memory to the new string and
  the memory it leaves (the runtime's own variables are part of the memory). The
  allocation may run a collection, and a collection may move the string \<open>v_source\<close>; the
  runtime then updates the registered root \<open>v_source\<close>, but the stub took the C pointer
  \<open>source\<close> before the allocation and copies from it after the allocation.
  \<^verbatim>\<open>uint32_t length = end - start\<close> wraps around; nothing compares \<open>start\<close>, \<open>end\<close> or
  \<open>length\<close> with the length of \<open>v_source\<close>. The string returned has \<open>length\<close> bytes, at
  the address returned.
\<close>
definition caml_ts_node_text ::
  "'l ts_api \<Rightarrow> (u32 \<Rightarrow> memory \<Rightarrow> ptr \<times> memory) \<Rightarrow> ml_node \<Rightarrow> ptr \<Rightarrow> memory \<Rightarrow> 'l world
   \<Rightarrow> (stop + ptr) \<times> memory \<times> 'l world" where
  "caml_ts_node_text api caml_alloc_string v_node v_source m w =
     (let node = node_val v_node;
          source = v_source;
          start = ts_node_start_byte api node (lib w);
          endb = ts_node_end_byte api node (lib w);
          len = endb - start;
          (v_result, m1) = caml_alloc_string len m;
          m2 = memcpy v_result (source + ucast start) (unat len) m1
      in (Inr v_result, m2, w))"

text \<open>
  \<^verbatim>\<open>strcmp\<close> on two C strings, each given by its bytes before the terminating NUL: the
  end of a list reads as the byte 0, and the comparison stops at the first NUL.
\<close>
fun strcmp :: "string \<Rightarrow> string \<Rightarrow> int" where
  "strcmp [] [] = 0"
| "strcmp [] (b # bs) = - of_char b"
| "strcmp (a # as) [] = of_char a"
| "strcmp (a # as) (b # bs) =
     (if a = b then (if of_char a = (0::nat) then 0 else strcmp as bs)
      else of_char a - of_char b)"

text \<open>\<^verbatim>\<open>ts_node_type\<close> is passed to \<^verbatim>\<open>strcmp\<close> with no test for \<^verbatim>\<open>NULL\<close> and no call of
  \<^verbatim>\<open>ts_node_is_null\<close>.\<close>
definition caml_ts_node_is_error :: "'l ts_api \<Rightarrow> ml_node \<Rightarrow> ('l, bool) stub" where
  "caml_ts_node_is_error api v_node w =
     (let node = node_val v_node
      in case ts_node_type api node (lib w) of
           None \<Rightarrow> (Inl (Undefined ''strcmp: NULL argument''), w)
         | Some type \<Rightarrow> (Inr (strcmp type ''ERROR'' = 0), w))"

subsection \<open>A small instance of the library, for closed examples\<close>

text \<open>
  The closed examples below run the stubs against one concrete library, \<open>toy_api\<close>. It does
  what the repository's own callers expect of the library: \<^verbatim>\<open>test_tree_sitter_debug.c\<close>
  treats a language whose \<^verbatim>\<open>ts_language_abi_version\<close> differs from
  \<^verbatim>\<open>TREE_SITTER_LANGUAGE_VERSION\<close> as a mismatch and treats \<^verbatim>\<open>false\<close> from
  \<^verbatim>\<open>ts_parser_set_language\<close> and \<^verbatim>\<open>NULL\<close> from \<^verbatim>\<open>ts_parser_parse_string\<close> as
  failures, and the stubs test for a \<^verbatim>\<open>NULL\<close> tree and for a null node. The instance
  knows no grammar rule: a non-empty input becomes a root with one \<^verbatim>\<open>ERROR\<close> child that
  covers the input, the empty input a root without children. No general theorem depends
  on it.
\<close>

record toy_node =
  toy_type :: string
  toy_symbol :: u16
  toy_has_error :: bool
  toy_start :: u32
  toy_end :: u32
  toy_parent :: ptr
  toy_children :: "ptr list"

text \<open>\<open>abi_of\<close>: the ABI version stored in each language object; \<open>language_of\<close>: the
  language of each parser (\<open>0\<close>: none); \<open>root_of\<close>: the root node of each tree;
  \<open>node_at\<close>: the nodes, by address; \<open>brk\<close>: the next free address.\<close>
record toy_lib =
  abi_of :: "ptr \<Rightarrow> u32"
  language_of :: "ptr \<Rightarrow> ptr"
  root_of :: "ptr \<Rightarrow> ptr"
  node_at :: "ptr \<Rightarrow> toy_node option"
  brk :: ptr

definition toy_null_node :: TSNode where
  "toy_null_node =
     \<lparr>context0 = 0, context1 = 0, context2 = 0, context3 = 0, node_id = 0, node_tree = 0\<rparr>"

definition toy_node_of :: "toy_lib \<Rightarrow> ptr \<Rightarrow> ptr \<Rightarrow> TSNode" where
  "toy_node_of l t i =
     (case node_at l i of
        None \<Rightarrow> toy_null_node
      | Some n \<Rightarrow>
          \<lparr>context0 = toy_start n, context1 = 0, context2 = toy_start n, context3 = 0,
           node_id = i, node_tree = t\<rparr>)"

definition toy_parser_new :: "toy_lib \<Rightarrow> ptr \<times> toy_lib" where
  "toy_parser_new l = (brk l, l\<lparr>language_of := (language_of l)(brk l := 0), brk := brk l + 8\<rparr>)"

definition toy_parser_delete :: "ptr \<Rightarrow> toy_lib \<Rightarrow> toy_lib" where
  "toy_parser_delete p l = l\<lparr>language_of := (language_of l)(p := 0)\<rparr>"

definition toy_parser_set_language :: "u32 \<Rightarrow> ptr \<Rightarrow> ptr \<Rightarrow> toy_lib \<Rightarrow> bool \<times> toy_lib" where
  "toy_parser_set_language expected p lang l =
     (if abi_of l lang = expected
      then (True, l\<lparr>language_of := (language_of l)(p := lang)\<rparr>)
      else (False, l\<lparr>language_of := (language_of l)(p := 0)\<rparr>))"

definition toy_parser_parse_string ::
  "ptr \<Rightarrow> ptr \<Rightarrow> string \<Rightarrow> u32 \<Rightarrow> toy_lib \<Rightarrow> ptr \<times> toy_lib" where
  "toy_parser_parse_string p old_tree source len l =
     (if language_of l p = 0 then (0, l)
      else (let t = brk l; r = t + 8; c = t + 16;
                root = \<lparr>toy_type = ''source_file'', toy_symbol = 1, toy_has_error = (len \<noteq> 0),
                        toy_start = 0, toy_end = len, toy_parent = 0,
                        toy_children = (if len = 0 then [] else [c])\<rparr>;
                err = \<lparr>toy_type = ''ERROR'', toy_symbol = 65535, toy_has_error = True,
                       toy_start = 0, toy_end = len, toy_parent = r, toy_children = []\<rparr>
            in (t, l\<lparr>root_of := (root_of l)(t := r),
                     node_at := (node_at l)(r := Some root, c := Some err),
                     brk := t + 24\<rparr>)))"

definition toy_tree_delete :: "ptr \<Rightarrow> toy_lib \<Rightarrow> toy_lib" where
  "toy_tree_delete t l = l\<lparr>root_of := (root_of l)(t := 0)\<rparr>"

definition toy_tree_copy :: "ptr \<Rightarrow> toy_lib \<Rightarrow> ptr \<times> toy_lib" where
  "toy_tree_copy t l = (brk l, l\<lparr>root_of := (root_of l)(brk l := root_of l t), brk := brk l + 8\<rparr>)"

definition toy_field :: "(toy_node \<Rightarrow> 'a) \<Rightarrow> 'a \<Rightarrow> TSNode \<Rightarrow> toy_lib \<Rightarrow> 'a" where
  "toy_field f d n l = (case node_at l (node_id n) of None \<Rightarrow> d | Some m \<Rightarrow> f m)"

definition toy_child :: "TSNode \<Rightarrow> u32 \<Rightarrow> toy_lib \<Rightarrow> TSNode" where
  "toy_child n i l =
     (let cs = toy_field toy_children [] n l
      in if unat i < length cs then toy_node_of l (node_tree n) (cs ! unat i) else toy_null_node)"

fun toy_next_in :: "ptr \<Rightarrow> ptr list \<Rightarrow> ptr" where
  "toy_next_in i (x # y # ys) = (if x = i then y else toy_next_in i (y # ys))"
| "toy_next_in i ys = 0"

definition toy_parent_node :: "TSNode \<Rightarrow> toy_lib \<Rightarrow> TSNode" where
  "toy_parent_node n l = toy_node_of l (node_tree n) (toy_field toy_parent 0 n l)"

definition toy_next_sibling :: "TSNode \<Rightarrow> toy_lib \<Rightarrow> TSNode" where
  "toy_next_sibling n l =
     toy_node_of l (node_tree n)
       (toy_next_in (node_id n) (toy_field toy_children [] (toy_parent_node n l) l))"

definition toy_prev_sibling :: "TSNode \<Rightarrow> toy_lib \<Rightarrow> TSNode" where
  "toy_prev_sibling n l =
     toy_node_of l (node_tree n)
       (toy_next_in (node_id n) (rev (toy_field toy_children [] (toy_parent_node n l) l)))"

definition toy_descendant :: "TSNode \<Rightarrow> TSPoint \<Rightarrow> TSPoint \<Rightarrow> toy_lib \<Rightarrow> TSNode" where
  "toy_descendant n s e l =
     (case toy_field toy_children [] n l of
        [] \<Rightarrow> toy_node_of l (node_tree n) (node_id n)
      | c # cs \<Rightarrow> toy_node_of l (node_tree n) c)"

definition toy_point :: "u32 \<Rightarrow> TSPoint" where
  "toy_point b = \<lparr>row = 0, column = b\<rparr>"

definition toy_api :: "toy_lib ts_api" where
  "toy_api =
     \<lparr>TREE_SITTER_LANGUAGE_VERSION = 15,
      tree_sitter_jasmin = 4096,
      ts_language_abi_version = (\<lambda>lang l. abi_of l lang),
      ts_parser_new = toy_parser_new,
      ts_parser_delete = toy_parser_delete,
      ts_parser_set_language = toy_parser_set_language 15,
      ts_parser_parse_string = toy_parser_parse_string,
      ts_tree_root_node = (\<lambda>t l. toy_node_of l t (root_of l t)),
      ts_tree_delete = toy_tree_delete,
      ts_tree_copy = toy_tree_copy,
      ts_node_is_null = (\<lambda>n. node_id n = 0),
      ts_node_type = (\<lambda>n l. toy_field (\<lambda>m. Some (toy_type m)) None n l),
      ts_node_symbol = toy_field toy_symbol 0,
      ts_node_is_named = toy_field (\<lambda>m. True) False,
      ts_node_has_error = toy_field toy_has_error False,
      ts_node_is_missing = (\<lambda>n l. False),
      ts_node_start_point = (\<lambda>n l. toy_point (toy_field toy_start 0 n l)),
      ts_node_end_point = (\<lambda>n l. toy_point (toy_field toy_end 0 n l)),
      ts_node_start_byte = toy_field toy_start 0,
      ts_node_end_byte = toy_field toy_end 0,
      ts_node_child_count = (\<lambda>n l. of_nat (length (toy_field toy_children [] n l))),
      ts_node_child = toy_child,
      ts_node_named_child_count = (\<lambda>n l. of_nat (length (toy_field toy_children [] n l))),
      ts_node_named_child = toy_child,
      ts_node_child_by_field_name = (\<lambda>n name len l. toy_null_node),
      ts_node_parent = toy_parent_node,
      ts_node_next_sibling = toy_next_sibling,
      ts_node_prev_sibling = toy_prev_sibling,
      ts_node_next_named_sibling = toy_next_sibling,
      ts_node_prev_named_sibling = toy_prev_sibling,
      ts_node_descendant_for_point_range = toy_descendant,
      ts_node_named_descendant_for_point_range = toy_descendant\<rparr>"

text \<open>The state at program start: the generated grammar sits at the address
  \<open>tree_sitter_jasmin toy_api\<close> and was generated for ABI version \<open>abi\<close>.\<close>
definition toy_boot :: "u32 \<Rightarrow> toy_lib world" where
  "toy_boot abi =
     \<lparr>lib = \<lparr>abi_of = (\<lambda>p. 0)(4096 := abi), language_of = (\<lambda>p. 0), root_of = (\<lambda>p. 0),
              node_at = (\<lambda>p. None), brk = 8192\<rparr>,
      blocks = (\<lambda>v. 0), next_block = 0, stderr = []\<rparr>"

text \<open>
  An OCaml program's first calls: \<^verbatim>\<open>parser_new ()\<close> (block 0), \<^verbatim>\<open>language_jasmin ()\<close>
  (block 1), \<^verbatim>\<open>parser_set_language\<close>, and then \<^verbatim>\<open>parser_parse_string\<close> (block 2, when it
  returns a tree).
\<close>
definition toy_unconfigured :: "u32 \<Rightarrow> toy_lib world" where
  "toy_unconfigured abi =
     snd (caml_ts_language_jasmin toy_api ()
       (snd (caml_ts_parser_new toy_api () (toy_boot abi))))"

definition toy_configured :: "u32 \<Rightarrow> toy_lib world" where
  "toy_configured abi = snd (caml_ts_parser_set_language toy_api 0 1 (toy_unconfigured abi))"

definition toy_parsed :: "u32 \<Rightarrow> string \<Rightarrow> toy_lib world" where
  "toy_parsed abi s = snd (caml_ts_parser_parse_string toy_api 0 s (toy_configured abi))"

text \<open>The root of the first tree parsed, and its \<^verbatim>\<open>ERROR\<close> child, as OCaml values.\<close>
definition toy_root :: ml_node where
  "toy_root = \<lparr>field0 = 0, field1 = 0, field2 = 0, field3 = 0, field4 = 8208, field5 = 8200\<rparr>"

definition toy_error_child :: ml_node where
  "toy_error_child =
     \<lparr>field0 = 0, field1 = 0, field2 = 0, field3 = 0, field4 = 8216, field5 = 8200\<rparr>"

text \<open>
  An allocator for the closed examples of \<^verbatim>\<open>caml_ts_node_text\<close>. \<open>toy_alloc_small\<close> gives
  the new string the address \<open>fresh\<close> and writes its padding as \<^verbatim>\<open>caml_alloc_string\<close>
  does (the last word zero, the last byte the number of padding bytes minus one).
  \<open>toy_alloc_after_collection\<close> first runs a minor collection the way the OCaml runtime
  promotes a young block: the block of \<open>wosize\<close> words at \<open>young\<close> is copied to \<open>moved\<close>,
  its old header is set to zero and its old first word to the forwarding pointer
  \<open>moved\<close> (little-endian).
\<close>
definition store_bytes :: "ptr \<Rightarrow> string \<Rightarrow> memory \<Rightarrow> memory" where
  "store_bytes a bs m = (\<lambda>x. if unat (x - a) < length bs then bs ! unat (x - a) else m x)"

definition le_bytes :: "ptr \<Rightarrow> string" where
  "le_bytes p = map (\<lambda>i. char_of (unat p div 256 ^ i)) [0..<8]"

definition toy_alloc_small :: "ptr \<Rightarrow> u32 \<Rightarrow> memory \<Rightarrow> ptr \<times> memory" where
  "toy_alloc_small fresh len m =
     (fresh,
      store_bytes (fresh + of_nat (8 * (unat len div 8)))
        [CHR 0x00, CHR 0x00, CHR 0x00, CHR 0x00, CHR 0x00, CHR 0x00, CHR 0x00,
         char_of (7 - unat len mod 8)] m)"

definition toy_minor_collection :: "ptr \<Rightarrow> nat \<Rightarrow> ptr \<Rightarrow> memory \<Rightarrow> memory" where
  "toy_minor_collection young wosize moved m =
     store_bytes young (le_bytes moved)
       (store_bytes (young - 8) (le_bytes 0)
         (store_bytes moved (bytes_at m young (8 * wosize)) m))"

definition toy_alloc_after_collection ::
  "ptr \<Rightarrow> nat \<Rightarrow> ptr \<Rightarrow> ptr \<Rightarrow> u32 \<Rightarrow> memory \<Rightarrow> ptr \<times> memory" where
  "toy_alloc_after_collection young wosize moved fresh len m =
     toy_alloc_small fresh len (toy_minor_collection young wosize moved m)"

text \<open>A memory that holds the OCaml string \<^verbatim>\<open>ab\<close> (one word: two bytes, five zero bytes
  and the padding byte 5) at the address 28672, and one that holds \<^verbatim>\<open>a\<close> there.\<close>
definition toy_memory_ab :: memory where
  "toy_memory_ab =
     store_bytes 28672
       [CHR ''a'', CHR ''b'', CHR 0x00, CHR 0x00, CHR 0x00, CHR 0x00, CHR 0x00, CHR 0x05]
       (\<lambda>a. CHR 0x00)"

definition toy_memory_a :: memory where
  "toy_memory_a =
     store_bytes 28672
       [CHR ''a'', CHR 0x00, CHR 0x00, CHR 0x00, CHR 0x00, CHR 0x00, CHR 0x00, CHR 0x06]
       (\<lambda>a. CHR 0x00)"

section \<open>Properties\<close>

subsection \<open>What each stateful stub does, in one equation\<close>

lemma node_val_alloc_node: "node_val (alloc_node n) = n"
  by (simp add: node_val_def alloc_node_def)

lemma fprintf_stderr_fields [simp]:
  "lib (fprintf_stderr fmt args w) = lib w"
  "blocks (fprintf_stderr fmt args w) = blocks w"
  "next_block (fprintf_stderr fmt args w) = next_block w"
  "stderr (fprintf_stderr fmt args w) = stderr w @ [(fmt, args)]"
  by (simp_all add: fprintf_stderr_def)

lemmas custom_defs = Parser_val_def Tree_val_def Language_val_def set_custom_val_def
  alloc_custom_def alloc_parser_def alloc_tree_def alloc_language_def

lemma parser_new_eq:
  "caml_ts_parser_new api u w =
     (Inr (next_block w),
      w\<lparr>lib := snd (ts_parser_new api (lib w)),
        blocks := (blocks w)(next_block w := fst (ts_parser_new api (lib w))),
        next_block := Suc (next_block w)\<rparr>)"
  by (simp add: caml_ts_parser_new_def custom_defs split_beta)

lemma language_jasmin_eq:
  "caml_ts_language_jasmin api u w =
     (Inr (next_block w),
      w\<lparr>blocks := (blocks w)(next_block w := tree_sitter_jasmin api),
        next_block := Suc (next_block w),
        stderr := stderr w @
          [(''[C DEBUG] Getting Jasmin language'', []),
           (''[C DEBUG] Jasmin language pointer: %p'', [Arg_ptr (tree_sitter_jasmin api)])]\<rparr>)"
  by (simp add: caml_ts_language_jasmin_def custom_defs fprintf_stderr_def Let_def)

lemma set_language_eq:
  "caml_ts_parser_set_language api v_parser v_language w =
     (Inr (),
      w\<lparr>lib := snd (ts_parser_set_language api (blocks w v_parser) (blocks w v_language) (lib w)),
        stderr := stderr w @
          [(''[C DEBUG] Setting language %p on parser %p'',
              [Arg_ptr (blocks w v_language), Arg_ptr (blocks w v_parser)]),
           (''[C DEBUG] Language ABI version: %u'',
              [Arg_u32 (ts_language_abi_version api (blocks w v_language) (lib w))]),
           (''[C DEBUG] Expected ABI version: %u'', [Arg_u32 (TREE_SITTER_LANGUAGE_VERSION api)]),
           (''[C DEBUG] Set language result: %d'',
              [Arg_bool (fst (ts_parser_set_language api (blocks w v_parser)
                            (blocks w v_language) (lib w)))])] @
          (if fst (ts_parser_set_language api (blocks w v_parser) (blocks w v_language) (lib w))
           then []
           else [(''[C DEBUG] ERROR: Failed to set language! ABI version mismatch?'', [])])\<rparr>)"
  by (simp add: caml_ts_parser_set_language_def custom_defs fprintf_stderr_def Let_def split_beta)

lemma parse_string_eq:
  "caml_ts_parser_parse_string api v_parser v_string w =
     (let r = ts_parser_parse_string api (blocks w v_parser) 0 v_string
                (caml_string_length_u32 v_string) (lib w)
      in if fst r = 0 then (Inr None, w\<lparr>lib := snd r\<rparr>)
         else (Inr (Some (next_block w)),
               w\<lparr>lib := snd r, blocks := (blocks w)(next_block w := fst r),
                 next_block := Suc (next_block w)\<rparr>))"
  by (simp add: caml_ts_parser_parse_string_def custom_defs Let_def split_beta)

lemma parse_string_with_tree_eq:
  "caml_ts_parser_parse_string_with_tree api v_parser v_old_tree v_string w =
     (let r = ts_parser_parse_string api (blocks w v_parser)
                (case v_old_tree of None \<Rightarrow> 0 | Some v \<Rightarrow> blocks w v) v_string
                (caml_string_length_u32 v_string) (lib w);
          out = stderr w @
            [(''[C DEBUG] Parsing %d bytes'', [Arg_u32 (caml_string_length_u32 v_string)])] @
            (case v_old_tree of None \<Rightarrow> [] | Some v \<Rightarrow> [(''[C DEBUG] Using old tree'', [])])
      in if fst r = 0
         then (Inr None,
               w\<lparr>lib := snd r, stderr := out @ [(''[C DEBUG] Parser returned NULL!'', [])]\<rparr>)
         else (Inr (Some (next_block w)),
               w\<lparr>lib := snd r, blocks := (blocks w)(next_block w := fst r),
                 next_block := Suc (next_block w),
                 stderr := out @ [(''[C DEBUG] Parser succeeded, creating OCaml value'', [])]\<rparr>))"
  by (cases v_old_tree)
    (simp_all add: caml_ts_parser_parse_string_with_tree_def custom_defs fprintf_stderr_def
      Let_def split_beta)

lemma tree_root_node_eq:
  "caml_ts_tree_root_node api v_tree w =
     (if blocks w v_tree = 0
      then (Inl (Failure ''tree_root_node: NULL tree''),
            w\<lparr>stderr := stderr w @
               [(''[C DEBUG] ERROR: tree_root_node called on NULL tree!'', [])]\<rparr>)
      else (Inr (alloc_node (ts_tree_root_node api (blocks w v_tree) (lib w))), w))"
  by (simp add: caml_ts_tree_root_node_def custom_defs fprintf_stderr_def Let_def)

lemma tree_delete_eq:
  "caml_ts_tree_delete api v_tree w =
     (if blocks w v_tree = 0 then (Inr (), w)
      else (Inr (),
            w\<lparr>lib := ts_tree_delete api (blocks w v_tree) (lib w),
              blocks := (blocks w)(v_tree := 0),
              stderr := stderr w @
                [(''[C DEBUG] Manually deleting tree %p'', [Arg_ptr (blocks w v_tree)])]\<rparr>))"
  by (simp add: caml_ts_tree_delete_def custom_defs fprintf_stderr_def Let_def)

lemma tree_copy_eq:
  "caml_ts_tree_copy api v_tree w =
     (Inr (next_block w),
      w\<lparr>lib := snd (ts_tree_copy api (blocks w v_tree) (lib w)),
        blocks := (blocks w)(next_block w := fst (ts_tree_copy api (blocks w v_tree) (lib w))),
        next_block := Suc (next_block w)\<rparr>)"
  by (simp add: caml_ts_tree_copy_def custom_defs Let_def split_beta)

subsection \<open>The example library, evaluated\<close>

lemma toy_api_fields:
  "TREE_SITTER_LANGUAGE_VERSION toy_api = 15"
  "tree_sitter_jasmin toy_api = 4096"
  "ts_language_abi_version toy_api = (\<lambda>lang l. abi_of l lang)"
  "ts_parser_new toy_api = toy_parser_new"
  "ts_parser_set_language toy_api = toy_parser_set_language 15"
  "ts_parser_parse_string toy_api = toy_parser_parse_string"
  "ts_tree_root_node toy_api = (\<lambda>t l. toy_node_of l t (root_of l t))"
  "ts_tree_delete toy_api = toy_tree_delete"
  "ts_tree_copy toy_api = toy_tree_copy"
  "ts_node_is_null toy_api = (\<lambda>n. node_id n = 0)"
  "ts_node_type toy_api = (\<lambda>n l. toy_field (\<lambda>m. Some (toy_type m)) None n l)"
  "ts_node_has_error toy_api = toy_field toy_has_error False"
  "ts_node_start_byte toy_api = toy_field toy_start 0"
  "ts_node_end_byte toy_api = toy_field toy_end 0"
  "ts_node_child_count toy_api = (\<lambda>n l. of_nat (length (toy_field toy_children [] n l)))"
  "ts_node_child toy_api = toy_child"
  "ts_node_parent toy_api = toy_parent_node"
  by (simp_all add: toy_api_def)

lemma toy_unconfigured_lib:
  "lib (toy_unconfigured abi) =
     \<lparr>abi_of = (\<lambda>p. 0)(4096 := abi), language_of = (\<lambda>p. 0)(8192 := 0),
      root_of = (\<lambda>p. 0), node_at = (\<lambda>p. None), brk = 8200\<rparr>"
  and toy_unconfigured_blocks:
  "blocks (toy_unconfigured abi) = (\<lambda>v. 0)(0 := 8192, Suc 0 := 4096)"
  and toy_unconfigured_next_block:
  "next_block (toy_unconfigured abi) = 2"
  by (simp_all add: toy_unconfigured_def toy_boot_def parser_new_eq language_jasmin_eq
      toy_api_fields toy_parser_new_def)

lemma toy_set_language_15:
  "toy_parser_set_language 15 8192 4096 (lib (toy_unconfigured 15)) =
     (True, \<lparr>abi_of = (\<lambda>p. 0)(4096 := 15), language_of = (\<lambda>p. 0)(8192 := 4096),
             root_of = (\<lambda>p. 0), node_at = (\<lambda>p. None), brk = 8200\<rparr>)"
  by (simp add: toy_unconfigured_lib toy_parser_set_language_def)

lemma toy_set_language_16:
  "toy_parser_set_language 15 8192 4096 (lib (toy_unconfigured 16)) =
     (False, \<lparr>abi_of = (\<lambda>p. 0)(4096 := 16), language_of = (\<lambda>p. 0)(8192 := 0),
              root_of = (\<lambda>p. 0), node_at = (\<lambda>p. None), brk = 8200\<rparr>)"
  by (simp add: toy_unconfigured_lib toy_parser_set_language_def)

lemma toy_configured_15:
  "lib (toy_configured 15) =
     \<lparr>abi_of = (\<lambda>p. 0)(4096 := 15), language_of = (\<lambda>p. 0)(8192 := 4096),
      root_of = (\<lambda>p. 0), node_at = (\<lambda>p. None), brk = 8200\<rparr>"
  "blocks (toy_configured 15) = (\<lambda>v. 0)(0 := 8192, Suc 0 := 4096)"
  "next_block (toy_configured 15) = 2"
  by (simp_all add: toy_configured_def set_language_eq toy_api_fields toy_unconfigured_blocks
      toy_unconfigured_next_block toy_set_language_15)

lemma toy_configured_16:
  "lib (toy_configured 16) =
     \<lparr>abi_of = (\<lambda>p. 0)(4096 := 16), language_of = (\<lambda>p. 0)(8192 := 0),
      root_of = (\<lambda>p. 0), node_at = (\<lambda>p. None), brk = 8200\<rparr>"
  "blocks (toy_configured 16) = (\<lambda>v. 0)(0 := 8192, Suc 0 := 4096)"
  "next_block (toy_configured 16) = 2"
  by (simp_all add: toy_configured_def set_language_eq toy_api_fields toy_unconfigured_blocks
      toy_unconfigured_next_block toy_set_language_16)

lemma toy_parse_15:
  "toy_parser_parse_string 8192 0 s len (lib (toy_configured 15)) =
     (8200,
      \<lparr>abi_of = (\<lambda>p. 0)(4096 := 15), language_of = (\<lambda>p. 0)(8192 := 4096),
       root_of = (\<lambda>p. 0)(8200 := 8208),
       node_at = (\<lambda>p. None)
         (8208 := Some \<lparr>toy_type = ''source_file'', toy_symbol = 1,
             toy_has_error = (len \<noteq> 0), toy_start = 0, toy_end = len, toy_parent = 0,
             toy_children = (if len = 0 then [] else [8216])\<rparr>,
          8216 := Some \<lparr>toy_type = ''ERROR'', toy_symbol = 65535, toy_has_error = True,
             toy_start = 0, toy_end = len, toy_parent = 8208, toy_children = []\<rparr>),
       brk = 8224\<rparr>)"
  by (simp add: toy_configured_15 toy_parser_parse_string_def Let_def)

lemma toy_parsed_15:
  "lib (toy_parsed 15 s) = snd (toy_parser_parse_string 8192 0 s (caml_string_length_u32 s) (lib (toy_configured 15)))"
  "blocks (toy_parsed 15 s) = (\<lambda>v. 0)(0 := 8192, Suc 0 := 4096, 2 := 8200)"
  "next_block (toy_parsed 15 s) = 3"
  "stderr (toy_parsed 15 s) = stderr (toy_configured 15)"
  by (simp_all add: toy_parsed_def parse_string_eq toy_api_fields toy_configured_15(2,3) toy_parse_15 Let_def)

lemma toy_root_at:
  "node_at (lib (toy_parsed 15 s)) 8208 =
     Some \<lparr>toy_type = ''source_file'', toy_symbol = 1,
             toy_has_error = (caml_string_length_u32 s \<noteq> 0), toy_start = 0,
             toy_end = caml_string_length_u32 s, toy_parent = 0,
             toy_children = (if caml_string_length_u32 s = 0 then [] else [8216])\<rparr>"
  and toy_error_child_at:
  "node_at (lib (toy_parsed 15 s)) 8216 =
     Some \<lparr>toy_type = ''ERROR'', toy_symbol = 65535, toy_has_error = True,
             toy_start = 0, toy_end = caml_string_length_u32 s, toy_parent = 8208, toy_children = []\<rparr>"
  and toy_root_of: "root_of (lib (toy_parsed 15 s)) 8200 = 8208"
  by (simp_all add: toy_parsed_15(1) toy_parse_15)

lemma toy_root_node:
  "caml_ts_tree_root_node toy_api 2 (toy_parsed 15 s) = (Inr toy_root, toy_parsed 15 s)"
  by (simp add: tree_root_node_eq toy_parsed_15(2) toy_api_fields toy_node_of_def toy_root_of
      toy_root_at toy_root_def alloc_node_def)

lemma toy_parse_16:
  "toy_parser_parse_string 8192 old s len (lib (toy_configured 16)) = (0, lib (toy_configured 16))"
  by (simp add: toy_configured_16 toy_parser_parse_string_def)

lemma toy_parsed_language:
  "language_of (lib (toy_parsed 15 s)) 8192 = 4096"
  and toy_parsed_brk: "brk (lib (toy_parsed 15 s)) = 8224"
  by (simp_all add: toy_parsed_15(1) toy_parse_15)

lemma toy_reparse:
  "fst (ts_parser_parse_string toy_api (Parser_val (toy_parsed 15 ''ab'') 0)
       (Tree_val (toy_parsed 15 ''ab'') 2) ''abc'' (caml_string_length_u32 ''abc'')
       (lib (toy_parsed 15 ''ab''))) = 8224"
  by (simp add: toy_api_fields Parser_val_def Tree_val_def toy_parsed_15(2)
      toy_parsed_language toy_parsed_brk toy_parser_parse_string_def Let_def)

lemma toy_root_first_child:
  "fst (caml_ts_node_child toy_api toy_root 0 (toy_parsed 15 ''ab'')) = Inr (Some toy_error_child)"
  by (simp add: caml_ts_node_child_def toy_api_fields toy_child_def toy_field_def toy_root_at
      toy_error_child_at toy_node_of_def toy_root_def toy_error_child_def node_val_def
      alloc_node_def Int_val_u32_def caml_string_length_u32_def)

lemma toy_root_child_count:
  "fst (caml_ts_node_child_count toy_api toy_root (toy_parsed 15 ''ab'')) = Inr 1"
  by (simp add: caml_ts_node_child_count_def toy_api_fields toy_field_def toy_root_at
      toy_root_def node_val_def Val_int_def caml_string_length_u32_def)

lemma long_length_narrowed:
  "caml_string_length_u32 (replicate 4294967296 c) = 0"
  by (simp add: caml_string_length_u32_def)

lemma toy_long_parse:
  "caml_ts_parser_parse_string toy_api 0 (replicate 4294967296 CHR ''a'') (toy_configured 15) =
     (Inr (Some 2), toy_parsed 15 (replicate 4294967296 CHR ''a''))"
proof -
  have "fst (caml_ts_parser_parse_string toy_api 0 (replicate 4294967296 CHR ''a'')
      (toy_configured 15)) = Inr (Some 2)"
    by (simp add: parse_string_eq toy_api_fields toy_configured_15(2,3) toy_parse_15 Let_def)
  then show ?thesis
    by (simp add: toy_parsed_def prod_eq_iff)
qed

lemma toy_long_end_byte:
  "caml_ts_node_end_byte toy_api toy_root (toy_parsed 15 (replicate 4294967296 CHR ''a'')) =
     (Inr 0, toy_parsed 15 (replicate 4294967296 CHR ''a''))"
  by (simp add: caml_ts_node_end_byte_def toy_api_fields toy_field_def toy_root_at
      toy_root_def node_val_def Val_int_def long_length_narrowed)

lemma toy_root_span:
  "ts_node_start_byte toy_api (node_val toy_root) (lib (toy_parsed 15 ''ab'')) = 0"
  "ts_node_end_byte toy_api (node_val toy_root) (lib (toy_parsed 15 ''ab'')) = 2"
  by (simp_all add: toy_api_fields toy_field_def toy_root_at toy_root_def node_val_def
      caml_string_length_u32_def)

lemma toy_types:
  "ts_node_type toy_api (node_val toy_error_child) (lib (toy_parsed 15 ''ab'')) = Some ''ERROR''"
  "ts_node_type toy_api (node_val toy_root) (lib (toy_parsed 15 ''ab'')) = Some ''source_file''"
  by (simp_all add: toy_api_fields toy_field_def toy_root_at toy_error_child_at toy_root_def
      toy_error_child_def node_val_def)

lemma toy_root_has_error:
  "fst (caml_ts_node_has_error toy_api toy_root (toy_parsed 15 ''ab'')) = Inr True"
  by (simp add: caml_ts_node_has_error_def toy_api_fields toy_field_def toy_root_at
      toy_root_def node_val_def caml_string_length_u32_def Let_def)

subsection \<open>What the parse stubs return\<close>

text \<open>
  The two parse stubs never stop with an exception. They return \<open>None\<close> exactly when the
  library's \<^verbatim>\<open>ts_parser_parse_string\<close> returns \<^verbatim>\<open>NULL\<close>, and otherwise \<open>Some\<close> of a fresh
  custom block that holds the tree the library returned. Whether the library returns a
  tree for every input is the library's.
\<close>
lemma parse_returns_optional_tree:
  "(let tree = fst (ts_parser_parse_string api (Parser_val w v_parser) 0 v_string
                 (caml_string_length_u32 v_string) (lib w));
        res = caml_ts_parser_parse_string api v_parser v_string w
    in fst res = Inr (if tree = 0 then None else Some (next_block w))
       \<and> Tree_val (snd res) (next_block w) = (if tree = 0 then Tree_val w (next_block w) else tree))
   \<and> (let tree = fst (ts_parser_parse_string api (Parser_val w v_parser)
                 (case v_old_tree of None \<Rightarrow> 0 | Some v \<Rightarrow> Tree_val w v) v_string
                 (caml_string_length_u32 v_string) (lib w));
        res = caml_ts_parser_parse_string_with_tree api v_parser v_old_tree v_string w
    in fst res = Inr (if tree = 0 then None else Some (next_block w))
       \<and> Tree_val (snd res) (next_block w) = (if tree = 0 then Tree_val w (next_block w) else tree))"
  by (cases v_old_tree)
    (simp_all add: parse_string_eq parse_string_with_tree_eq Parser_val_def Tree_val_def Let_def)

subsection \<open>An ABI mismatch is printed, not reported\<close>

lemma set_language_never_raises:
  "fst (caml_ts_parser_set_language api v_parser v_language w) = Inr ()"
  by (simp add: set_language_eq)

lemma set_language_failure_is_only_printed:
  "\<not> fst (ts_parser_set_language api (Parser_val w v_parser) (Language_val w v_language) (lib w))
   \<Longrightarrow> fst (caml_ts_parser_set_language api v_parser v_language w) = Inr ()
     \<and> last (stderr (snd (caml_ts_parser_set_language api v_parser v_language w))) =
         (''[C DEBUG] ERROR: Failed to set language! ABI version mismatch?'', [])"
  by (simp add: set_language_eq Parser_val_def Language_val_def)

text \<open>
  Claim C2, at its failing input: the grammar was generated for ABI version 16 and the
  library expects 15. \<^verbatim>\<open>caml_ts_parser_set_language\<close> returns unit as on success; the
  refusal is only printed on stderr. A parse is then attempted, and comes back \<open>None\<close>.
\<close>
theorem set_language_mismatch_is_not_reported:
  "ts_language_abi_version toy_api (Language_val (toy_unconfigured 16) 1)
     (lib (toy_unconfigured 16)) = 16
   \<and> TREE_SITTER_LANGUAGE_VERSION toy_api = 15
   \<and> fst (caml_ts_parser_set_language toy_api 0 1 (toy_unconfigured 16)) = Inr ()
   \<and> last (stderr (snd (caml_ts_parser_set_language toy_api 0 1 (toy_unconfigured 16)))) =
       (''[C DEBUG] ERROR: Failed to set language! ABI version mismatch?'', [])
   \<and> fst (caml_ts_parser_parse_string toy_api 0 ''fn test() -> reg u64 { reg u64 x; return x; }''
          (snd (caml_ts_parser_set_language toy_api 0 1 (toy_unconfigured 16)))) = Inr None"
proof -
  have abi: "ts_language_abi_version toy_api (Language_val (toy_unconfigured 16) 1)
      (lib (toy_unconfigured 16)) = 16"
    by (simp add: toy_api_fields Language_val_def toy_unconfigured_blocks toy_unconfigured_lib)
  have refused: "\<not> fst (ts_parser_set_language toy_api (Parser_val (toy_unconfigured 16) 0)
      (Language_val (toy_unconfigured 16) 1) (lib (toy_unconfigured 16)))"
    by (simp add: toy_api_fields Parser_val_def Language_val_def toy_unconfigured_blocks
        toy_set_language_16)
  have parse: "fst (caml_ts_parser_parse_string toy_api 0
      ''fn test() -> reg u64 { reg u64 x; return x; }'' (toy_configured 16)) = Inr None"
    by (simp add: parse_string_eq toy_api_fields toy_configured_16(2) toy_parse_16 Let_def)
  show ?thesis
    using abi set_language_failure_is_only_printed [OF refused] parse
    by (simp add: toy_api_fields toy_configured_def)
qed

subsection \<open>Operations on a released tree\<close>

text \<open>
  Claim C3, as amended. After \<^verbatim>\<open>caml_ts_tree_delete\<close> the custom block holds \<^verbatim>\<open>NULL\<close>,
  and this is tested at run time: \<^verbatim>\<open>caml_ts_tree_root_node\<close> on the released tree raises
  \<open>Failure\<close> with the message \<^verbatim>\<open>tree_root_node: NULL tree\<close>, and a second
  \<^verbatim>\<open>caml_ts_tree_delete\<close> changes nothing. \<^verbatim>\<open>caml_ts_tree_copy\<close> makes no test: it hands
  the \<^verbatim>\<open>NULL\<close> pointer to \<^verbatim>\<open>ts_tree_copy\<close> and wraps whatever comes back. A parse that
  is given the released tree as its old tree returns what a parse without an old tree
  returns.
\<close>
theorem released_tree_is_checked:
  "(let w1 = snd (caml_ts_tree_delete api v_tree w);
        copy = caml_ts_tree_copy api v_tree w1
    in fst (caml_ts_tree_root_node api v_tree w1) = Inl (Failure ''tree_root_node: NULL tree'')
       \<and> caml_ts_tree_delete api v_tree w1 = (Inr (), w1)
       \<and> fst copy = Inr (next_block w1)
       \<and> Tree_val (snd copy) (next_block w1) = fst (ts_tree_copy api 0 (lib w1))
       \<and> fst (caml_ts_parser_parse_string_with_tree api v_parser (Some v_tree) v_string w1) =
           fst (caml_ts_parser_parse_string api v_parser v_string w1))"
  by (simp add: tree_root_node_eq tree_delete_eq tree_copy_eq parse_string_eq
      parse_string_with_tree_eq Tree_val_def Let_def)

text \<open>
  Claim C3 as stated (no tree operation on a released tree is detected or reported) fails:
  parse \<^verbatim>\<open>ab\<close>, delete the tree, ask for its root; the stub raises \<open>Failure\<close>.
\<close>
theorem root_node_of_deleted_tree_raises:
  "fst (caml_ts_tree_root_node toy_api 2
         (snd (caml_ts_tree_delete toy_api 2 (toy_parsed 15 ''ab'')))) =
     Inl (Failure ''tree_root_node: NULL tree'')"
  by (simp add: tree_root_node_eq tree_delete_eq toy_parsed_15(2))

subsection \<open>The effects of a parse\<close>

text \<open>
  Claim C4, as amended. \<^verbatim>\<open>caml_ts_parser_parse_string_with_tree\<close> leaves the block of the
  old tree pointing at the same tree, and changes the custom blocks only by allocating
  the block of the new tree; but it prints on stderr at every call: the line
  \<^verbatim>\<open>Parsing %d bytes\<close>, the line \<^verbatim>\<open>Using old tree\<close> when an old tree is given, and one
  line for the outcome. \<^verbatim>\<open>caml_ts_parser_parse_string\<close> prints nothing. What the library
  does to its own state, the old tree included, is the library's.
\<close>
theorem parse_with_tree_effects:
  assumes "v < next_block w"
  shows "(let tree = fst (ts_parser_parse_string api (Parser_val w v_parser) (Tree_val w v)
                       v_string (caml_string_length_u32 v_string) (lib w));
              w' = snd (caml_ts_parser_parse_string_with_tree api v_parser (Some v) v_string w)
          in Tree_val w' v = Tree_val w v
             \<and> blocks w' = (if tree = 0 then blocks w else (blocks w)(next_block w := tree))
             \<and> stderr w' = stderr w @
                 [(''[C DEBUG] Parsing %d bytes'', [Arg_u32 (caml_string_length_u32 v_string)]),
                  (''[C DEBUG] Using old tree'', []),
                  (if tree = 0 then (''[C DEBUG] Parser returned NULL!'', [])
                   else (''[C DEBUG] Parser succeeded, creating OCaml value'', []))])
         \<and> stderr (snd (caml_ts_parser_parse_string_with_tree api v_parser None v_string w)) =
             stderr w @
               [(''[C DEBUG] Parsing %d bytes'', [Arg_u32 (caml_string_length_u32 v_string)]),
                (if fst (ts_parser_parse_string api (Parser_val w v_parser) 0
                       v_string (caml_string_length_u32 v_string) (lib w)) = 0
                 then (''[C DEBUG] Parser returned NULL!'', [])
                 else (''[C DEBUG] Parser succeeded, creating OCaml value'', []))]
         \<and> stderr (snd (caml_ts_parser_parse_string api v_parser v_string w)) = stderr w"
  using assms
  by (simp add: parse_string_eq parse_string_with_tree_eq Parser_val_def Tree_val_def Let_def)

text \<open>Claim C4, witness: a second parse of \<^verbatim>\<open>abc\<close> that is given the tree of \<^verbatim>\<open>ab\<close>
  (block 2).\<close>
theorem parse_with_tree_effects_witness:
  "(2::nat) < next_block (toy_parsed 15 ''ab'')
   \<and> Tree_val (snd (caml_ts_parser_parse_string_with_tree toy_api 0 (Some 2) ''abc''
         (toy_parsed 15 ''ab''))) 2 = 8200
   \<and> stderr (snd (caml_ts_parser_parse_string_with_tree toy_api 0 (Some 2) ''abc''
         (toy_parsed 15 ''ab''))) =
       stderr (toy_parsed 15 ''ab'') @
         [(''[C DEBUG] Parsing %d bytes'', [Arg_u32 3]),
          (''[C DEBUG] Using old tree'', []),
          (''[C DEBUG] Parser succeeded, creating OCaml value'', [])]"
proof -
  have h: "(2::nat) < next_block (toy_parsed 15 ''ab'')"
    by (simp add: toy_parsed_15)
  show ?thesis
    using h parse_with_tree_effects [OF h, of toy_api 0 "''abc''"] toy_reparse
    by (simp add: Let_def Tree_val_def toy_parsed_15(2) caml_string_length_u32_def)
qed

text \<open>
  Claim C4 as stated (no diagnostic output on the parse path) fails: a parse of
  \<^verbatim>\<open>ab\<close> with no old tree appends two lines to stderr.
\<close>
theorem parse_with_tree_prints:
  "stderr (snd (caml_ts_parser_parse_string_with_tree toy_api 0 None ''ab'' (toy_configured 15))) =
     stderr (toy_configured 15) @
       [(''[C DEBUG] Parsing %d bytes'', [Arg_u32 2]),
        (''[C DEBUG] Parser succeeded, creating OCaml value'', [])]"
  by (simp add: parse_string_with_tree_eq toy_api_fields toy_configured_15(2) toy_parse_15
      caml_string_length_u32_def Let_def)

subsection \<open>Navigation\<close>

text \<open>
  Every navigation stub returns \<open>None\<close> exactly when the library's result is the null
  node, and a node it returns is never the null node.
\<close>
lemma navigation_none_iff_null:
  "fst (caml_ts_node_child api v_node v_index w) = Inr None \<longleftrightarrow>
     ts_node_is_null api (ts_node_child api (node_val v_node) (Int_val_u32 v_index) (lib w))"
  "fst (caml_ts_node_named_child api v_node v_index w) = Inr None \<longleftrightarrow>
     ts_node_is_null api (ts_node_named_child api (node_val v_node) (Int_val_u32 v_index) (lib w))"
  "fst (caml_ts_node_child_by_field_name api v_node v_name w) = Inr None \<longleftrightarrow>
     ts_node_is_null api (ts_node_child_by_field_name api (node_val v_node) v_name
       (caml_string_length_u32 v_name) (lib w))"
  "fst (caml_ts_node_parent api v_node w) = Inr None \<longleftrightarrow>
     ts_node_is_null api (ts_node_parent api (node_val v_node) (lib w))"
  "fst (caml_ts_node_next_sibling api v_node w) = Inr None \<longleftrightarrow>
     ts_node_is_null api (ts_node_next_sibling api (node_val v_node) (lib w))"
  "fst (caml_ts_node_prev_sibling api v_node w) = Inr None \<longleftrightarrow>
     ts_node_is_null api (ts_node_prev_sibling api (node_val v_node) (lib w))"
  "fst (caml_ts_node_next_named_sibling api v_node w) = Inr None \<longleftrightarrow>
     ts_node_is_null api (ts_node_next_named_sibling api (node_val v_node) (lib w))"
  "fst (caml_ts_node_prev_named_sibling api v_node w) = Inr None \<longleftrightarrow>
     ts_node_is_null api (ts_node_prev_named_sibling api (node_val v_node) (lib w))"
  "fst (caml_ts_node_descendant_for_point_range api v_node v_start v_end w) = Inr None \<longleftrightarrow>
     ts_node_is_null api (ts_node_descendant_for_point_range api (node_val v_node)
       (point_val v_start) (point_val v_end) (lib w))"
  "fst (caml_ts_node_named_descendant_for_point_range api v_node v_start v_end w) = Inr None \<longleftrightarrow>
     ts_node_is_null api (ts_node_named_descendant_for_point_range api (node_val v_node)
       (point_val v_start) (point_val v_end) (lib w))"
  by (simp_all add: caml_ts_node_child_def caml_ts_node_named_child_def
      caml_ts_node_child_by_field_name_def caml_ts_node_parent_def
      caml_ts_node_next_sibling_def caml_ts_node_prev_sibling_def
      caml_ts_node_next_named_sibling_def caml_ts_node_prev_named_sibling_def
      caml_ts_node_descendant_for_point_range_def
      caml_ts_node_named_descendant_for_point_range_def Let_def)

lemma navigation_never_a_null_node:
  "fst (caml_ts_node_child api v_node v_index w) = Inr (Some c) \<Longrightarrow>
     \<not> ts_node_is_null api (node_val c)"
  "fst (caml_ts_node_named_child api v_node v_index w) = Inr (Some c) \<Longrightarrow>
     \<not> ts_node_is_null api (node_val c)"
  "fst (caml_ts_node_child_by_field_name api v_node v_name w) = Inr (Some c) \<Longrightarrow>
     \<not> ts_node_is_null api (node_val c)"
  "fst (caml_ts_node_parent api v_node w) = Inr (Some c) \<Longrightarrow>
     \<not> ts_node_is_null api (node_val c)"
  "fst (caml_ts_node_next_sibling api v_node w) = Inr (Some c) \<Longrightarrow>
     \<not> ts_node_is_null api (node_val c)"
  "fst (caml_ts_node_prev_sibling api v_node w) = Inr (Some c) \<Longrightarrow>
     \<not> ts_node_is_null api (node_val c)"
  "fst (caml_ts_node_next_named_sibling api v_node w) = Inr (Some c) \<Longrightarrow>
     \<not> ts_node_is_null api (node_val c)"
  "fst (caml_ts_node_prev_named_sibling api v_node w) = Inr (Some c) \<Longrightarrow>
     \<not> ts_node_is_null api (node_val c)"
  "fst (caml_ts_node_descendant_for_point_range api v_node v_start v_end w) = Inr (Some c) \<Longrightarrow>
     \<not> ts_node_is_null api (node_val c)"
  "fst (caml_ts_node_named_descendant_for_point_range api v_node v_start v_end w) = Inr (Some c) \<Longrightarrow>
     \<not> ts_node_is_null api (node_val c)"
  by (auto simp add: caml_ts_node_child_def caml_ts_node_named_child_def
      caml_ts_node_child_by_field_name_def caml_ts_node_parent_def
      caml_ts_node_next_sibling_def caml_ts_node_prev_sibling_def
      caml_ts_node_next_named_sibling_def caml_ts_node_prev_named_sibling_def
      caml_ts_node_descendant_for_point_range_def
      caml_ts_node_named_descendant_for_point_range_def
      Let_def node_val_alloc_node split: if_splits)

text \<open>An index is narrowed to 32 bits before the library sees it.\<close>
lemma Int_val_u32_wraps: "Int_val_u32 (i + 4294967296) = Int_val_u32 i"
proof -
  have "(word_of_int (i + 4294967296) :: u32) = word_of_int i + word_of_int 4294967296"
    by simp
  also have "(word_of_int 4294967296 :: u32) = 0"
    by simp
  finally show ?thesis
    by (simp add: Int_val_u32_def)
qed

lemma node_child_index_mod:
  "caml_ts_node_child api v_node (i + 4294967296) w = caml_ts_node_child api v_node i w"
  by (simp only: caml_ts_node_child_def Int_val_u32_wraps)

lemma Val_int_u32_bound: "0 \<le> Val_int (x :: u32) \<and> Val_int x < 4294967296"
proof -
  have "uint x < 2 ^ LENGTH(32)"
    by (rule uint_lt2p)
  then show ?thesis
    by (simp add: Val_int_def)
qed

text \<open>
  Claim C5, at its failing input. \<^verbatim>\<open>uint32_t index = Int_val(v_index)\<close> keeps the low 32
  bits of the index: on a node that has a first child, \<^verbatim>\<open>child(4294967296)\<close> returns that
  first child, although the index is not below the child count (a \<^verbatim>\<open>uint32_t\<close>, so below
  4294967296).
\<close>
theorem child_index_wraps_around:
  assumes "fst (caml_ts_node_child api v_node 0 w) = Inr (Some c)"
  shows "fst (caml_ts_node_child api v_node 4294967296 w) = Inr (Some c)
         \<and> (\<exists>n. fst (caml_ts_node_child_count api v_node w) = Inr n \<and> n < 4294967296)"
proof -
  have "caml_ts_node_child api v_node (0 + 4294967296) w = caml_ts_node_child api v_node 0 w"
    by (rule node_child_index_mod)
  with assms have "fst (caml_ts_node_child api v_node 4294967296 w) = Inr (Some c)"
    by simp
  moreover have "\<exists>n. fst (caml_ts_node_child_count api v_node w) = Inr n \<and> n < 4294967296"
    using Val_int_u32_bound by (simp add: caml_ts_node_child_count_def)
  ultimately show ?thesis
    by simp
qed

text \<open>Claim C5, witness: the root of the tree of \<^verbatim>\<open>ab\<close>, which has one child.\<close>
theorem child_index_wraps_around_witness:
  "fst (caml_ts_node_child toy_api toy_root 0 (toy_parsed 15 ''ab'')) = Inr (Some toy_error_child)
   \<and> fst (caml_ts_node_child toy_api toy_root 4294967296 (toy_parsed 15 ''ab'')) =
       Inr (Some toy_error_child)
   \<and> fst (caml_ts_node_child_count toy_api toy_root (toy_parsed 15 ''ab'')) = Inr 1"
  using toy_root_first_child child_index_wraps_around [OF toy_root_first_child]
    toy_root_child_count
  by simp

subsection \<open>The span of the root\<close>

lemma length_narrowed_to_32_bits:
  assumes "4294967296 \<le> length s"
  shows "caml_string_length_u32 s = of_nat (length s - 4294967296)"
proof -
  from assms have "length s = (length s - 4294967296) + 4294967296"
    by simp
  then have "(of_nat (length s) :: u32) = of_nat (length s - 4294967296) + of_nat 4294967296"
    by (metis of_nat_add)
  also have "(of_nat 4294967296 :: u32) = 0"
    by simp
  finally show ?thesis
    by (simp add: caml_string_length_u32_def)
qed

text \<open>
  Claim C6, at its failing input. \<^verbatim>\<open>uint32_t length = caml_string_length(v_string)\<close>
  keeps the low 32 bits of the length, and \<^verbatim>\<open>caml_ts_node_end_byte\<close> returns a
  \<^verbatim>\<open>uint32_t\<close>: for a source of 4294967296 bytes or more, the end byte of the root (of
  any node) is below the length of the source, whatever the library does.
\<close>
theorem root_end_byte_of_long_source:
  assumes "4294967296 \<le> length s"
    and "caml_ts_parser_parse_string api v_parser s w = (Inr (Some v_tree), w1)"
    and "caml_ts_tree_root_node api v_tree w1 = (Inr root, w2)"
    and "caml_ts_node_end_byte api root w2 = (Inr e, w3)"
  shows "e < int (length s)
         \<and> Tree_val w1 v_tree =
             fst (ts_parser_parse_string api (Parser_val w v_parser) 0 s
                    (of_nat (length s - 4294967296)) (lib w))"
proof -
  from assms(4) have "e < 4294967296"
    using Val_int_u32_bound by (auto simp add: caml_ts_node_end_byte_def)
  with assms(1) have "e < int (length s)"
    by simp
  moreover from assms(2) have "Tree_val w1 v_tree =
      fst (ts_parser_parse_string api (Parser_val w v_parser) 0 s
             (caml_string_length_u32 s) (lib w))"
    by (auto simp add: parse_string_eq Parser_val_def Tree_val_def Let_def split: if_splits)
  ultimately show ?thesis
    using length_narrowed_to_32_bits [OF assms(1)] by simp
qed

text \<open>Claim C6, witness: a source of 4294967296 bytes; the library is handed the
  length 0, and the root ends at byte 0.\<close>
theorem root_end_byte_of_long_source_witness:
  "4294967296 \<le> length (replicate 4294967296 CHR ''a'')
   \<and> fst (caml_ts_parser_parse_string toy_api 0 (replicate 4294967296 CHR ''a'')
          (toy_configured 15)) = Inr (Some 2)
   \<and> fst (caml_ts_tree_root_node toy_api 2 (toy_parsed 15 (replicate 4294967296 CHR ''a'')))
       = Inr toy_root
   \<and> fst (caml_ts_node_end_byte toy_api toy_root
          (toy_parsed 15 (replicate 4294967296 CHR ''a''))) = Inr 0
   \<and> (0::int) < int (length (replicate 4294967296 CHR ''a''))"
proof -
  have len: "4294967296 \<le> length (replicate 4294967296 CHR ''a'')"
    by simp
  from root_end_byte_of_long_source [OF len toy_long_parse toy_root_node toy_long_end_byte]
    len toy_long_parse toy_root_node toy_long_end_byte
  show ?thesis
    by simp
qed

subsection \<open>The text of a node\<close>

lemma memcpy_bytes:
  "bytes_at (memcpy dst src (unat (len :: u32)) m) dst (unat len) = bytes_at m src (unat len)"
proof -
  have "unat len < 2 ^ LENGTH(32)"
    by (rule unsigned_less)
  then have "i < unat len \<Longrightarrow> unat (of_nat i :: ptr) < unat len" for i
    by (simp add: unat_of_nat)
  then show ?thesis
    by (simp add: bytes_at_def memcpy_def)
qed

lemma bytes_at_slice:
  assumes "st + k \<le> n"
  shows "bytes_at m (a + of_nat st) k = take k (drop st (bytes_at m a n))"
proof (rule nth_equalityI)
  show "length (bytes_at m (a + of_nat st) k) = length (take k (drop st (bytes_at m a n)))"
    using assms by (simp add: bytes_at_def)
next
  fix i assume "i < length (bytes_at m (a + of_nat st) k)"
  then have i: "i < k" by (simp add: bytes_at_def)
  with assms show "bytes_at m (a + of_nat st) k ! i = take k (drop st (bytes_at m a n)) ! i"
    by (simp add: bytes_at_def add.assoc)
qed

lemma node_text_eq:
  "caml_ts_node_text api caml_alloc_string v_node v_source m w =
     (let start = ts_node_start_byte api (node_val v_node) (lib w);
          len = ts_node_end_byte api (node_val v_node) (lib w) - start;
          alloc = caml_alloc_string len m
      in (Inr (fst alloc), memcpy (fst alloc) (v_source + ucast start) (unat len) (snd alloc), w))"
  by (simp add: caml_ts_node_text_def Let_def split_beta)

lemma toy_alloc_address:
  "fst (toy_alloc_small fresh len m) = fresh"
  "fst (toy_alloc_after_collection young wosize moved fresh len m) = fresh"
  by (simp_all add: toy_alloc_after_collection_def toy_alloc_small_def)

lemma toy_collection_memory:
  "bytes_at toy_memory_ab 28672 2 = ''ab''"
  "map of_char (bytes_at (snd (toy_alloc_after_collection 28672 1 36864 32752 2 toy_memory_ab))
     28672 2) = [0, 144 :: nat]"
  "bytes_at (snd (toy_alloc_after_collection 28672 1 36864 32752 2 toy_memory_ab)) 36864 2 = ''ab''"
  by (simp_all add: bytes_at_def toy_memory_ab_def store_bytes_def upt_rec
      toy_alloc_after_collection_def toy_alloc_small_def toy_minor_collection_def le_bytes_def)

lemma toy_short_memory:
  "bytes_at (snd (toy_alloc_small 32752 2 toy_memory_a)) 28672 2 = [CHR ''a'', CHR 0x00]"
  by (simp_all add: bytes_at_def toy_memory_a_def store_bytes_def upt_rec toy_alloc_small_def)

text \<open>
  Claim C9, at its failing input. \<^verbatim>\<open>source = String_val(v_source)\<close> is taken before
  \<^verbatim>\<open>caml_alloc_string\<close> and used after it. For every library and every allocator, the
  text returned is what the memory holds, after the allocation, at the address the source
  had before the allocation: not the bytes of the source when the allocation has moved it.
\<close>
theorem node_text_copies_from_the_old_address:
  assumes "\<not> ranges_overlap
              (fst (caml_alloc_string
                 (ts_node_end_byte api (node_val v_node) (lib w) -
                  ts_node_start_byte api (node_val v_node) (lib w)) m))
              (v_source + ucast (ts_node_start_byte api (node_val v_node) (lib w)))
              (unat (ts_node_end_byte api (node_val v_node) (lib w) -
                     ts_node_start_byte api (node_val v_node) (lib w)))"
  shows "(let start = ts_node_start_byte api (node_val v_node) (lib w);
              len = ts_node_end_byte api (node_val v_node) (lib w) - start;
              alloc = caml_alloc_string len m;
              res = caml_ts_node_text api caml_alloc_string v_node v_source m w
          in fst res = Inr (fst alloc)
             \<and> bytes_at (fst (snd res)) (fst alloc) (unat len) =
                 bytes_at (snd alloc) (v_source + ucast start) (unat len))"
  by (simp add: node_text_eq Let_def memcpy_bytes)

text \<open>
  Claim C9, witness: the source \<^verbatim>\<open>ab\<close> is a young string at 28672 and the node spans bytes
  0 to 2, so \<open>start \<le> end \<le> length s\<close> holds. The allocation of the result runs a minor
  collection, which moves the source to 36864 and leaves the forwarding pointer in its old
  place. The stub returns the bytes 0 and 144, the low bytes of that pointer, where the
  slice is \<^verbatim>\<open>ab\<close> (the bytes 97 and 98).
\<close>
theorem node_text_copies_from_the_old_address_witness:
  "\<not> ranges_overlap 32752 28672 2
   \<and> bytes_at toy_memory_ab 28672 2 = ''ab''
   \<and> fst (caml_ts_node_text toy_api (toy_alloc_after_collection 28672 1 36864 32752)
          toy_root 28672 toy_memory_ab (toy_parsed 15 ''ab'')) = Inr 32752
   \<and> map of_char (bytes_at
        (fst (snd (caml_ts_node_text toy_api (toy_alloc_after_collection 28672 1 36864 32752)
           toy_root 28672 toy_memory_ab (toy_parsed 15 ''ab'')))) 32752 2) = [0, 144 :: nat]
   \<and> map of_char ''ab'' = [97, 98 :: nat]"
proof -
  have h: "\<not> ranges_overlap
      (fst (toy_alloc_after_collection 28672 1 36864 32752
         (ts_node_end_byte toy_api (node_val toy_root) (lib (toy_parsed 15 ''ab'')) -
          ts_node_start_byte toy_api (node_val toy_root) (lib (toy_parsed 15 ''ab'')))
         toy_memory_ab))
      (28672 + ucast (ts_node_start_byte toy_api (node_val toy_root) (lib (toy_parsed 15 ''ab''))))
      (unat (ts_node_end_byte toy_api (node_val toy_root) (lib (toy_parsed 15 ''ab'')) -
             ts_node_start_byte toy_api (node_val toy_root) (lib (toy_parsed 15 ''ab''))))"
    by (simp add: toy_root_span toy_alloc_address ranges_overlap_def)
  have o: "\<not> ranges_overlap 32752 28672 2"
    by (simp add: ranges_overlap_def)
  from node_text_copies_from_the_old_address
      [where caml_alloc_string = "toy_alloc_after_collection 28672 1 36864 32752"
         and api = toy_api and v_node = toy_root and w = "toy_parsed 15 ''ab''"
         and m = toy_memory_ab and v_source = 28672, OF h] o
  show ?thesis
    by (simp add: Let_def toy_root_span toy_collection_memory toy_alloc_address del: One_nat_def)
qed

text \<open>
  When the allocation leaves the bytes of the source where they were, the stub does return
  the slice \<open>s[start .. end)\<close> under \<open>start \<le> end \<le> length s\<close>.
\<close>
lemma node_text_slice_if_source_stays:
  assumes pre: "ts_node_start_byte api (node_val v_node) (lib w) \<le>
                ts_node_end_byte api (node_val v_node) (lib w)"
      "unat (ts_node_end_byte api (node_val v_node) (lib w)) \<le> length s"
    and stays: "bytes_at (snd (caml_alloc_string
                 (ts_node_end_byte api (node_val v_node) (lib w) -
                  ts_node_start_byte api (node_val v_node) (lib w)) m)) v_source (length s) = s"
    and apart: "\<not> ranges_overlap
              (fst (caml_alloc_string
                 (ts_node_end_byte api (node_val v_node) (lib w) -
                  ts_node_start_byte api (node_val v_node) (lib w)) m))
              (v_source + ucast (ts_node_start_byte api (node_val v_node) (lib w)))
              (unat (ts_node_end_byte api (node_val v_node) (lib w) -
                     ts_node_start_byte api (node_val v_node) (lib w)))"
  shows "(let start = ts_node_start_byte api (node_val v_node) (lib w);
              endb = ts_node_end_byte api (node_val v_node) (lib w);
              alloc = caml_alloc_string (endb - start) m;
              res = caml_ts_node_text api caml_alloc_string v_node v_source m w
          in bytes_at (fst (snd res)) (fst alloc) (unat (endb - start)) =
               take (unat endb - unat start) (drop (unat start) s))"
proof -
  let ?s = "ts_node_start_byte api (node_val v_node) (lib w)"
  let ?e = "ts_node_end_byte api (node_val v_node) (lib w)"
  let ?a = "caml_alloc_string (?e - ?s) m"
  let ?res = "caml_ts_node_text api caml_alloc_string v_node v_source m w"
  have copy: "bytes_at (fst (snd ?res)) (fst ?a) (unat (?e - ?s)) =
      bytes_at (snd ?a) (v_source + ucast ?s) (unat (?e - ?s))"
    by (simp add: node_text_eq Let_def memcpy_bytes)
  from pre(1) have le: "unat ?s \<le> unat ?e"
    by (simp add: word_le_nat_alt)
  from pre(1) have len: "unat (?e - ?s) = unat ?e - unat ?s"
    by (simp add: unat_sub)
  from le pre(2) have "unat ?s + (unat ?e - unat ?s) \<le> length s"
    by simp
  then have "bytes_at (snd ?a) (v_source + of_nat (unat ?s)) (unat ?e - unat ?s) =
      take (unat ?e - unat ?s) (drop (unat ?s) (bytes_at (snd ?a) v_source (length s)))"
    by (rule bytes_at_slice)
  with stays have "bytes_at (snd ?a) (v_source + ucast ?s) (unat (?e - ?s)) =
      take (unat ?e - unat ?s) (drop (unat ?s) s)"
    by (simp add: len)
  with copy show ?thesis
    by (simp add: Let_def)
qed

text \<open>
  Nothing stops a copy that runs past the source: for the one-byte string \<^verbatim>\<open>a\<close> and a
  node that spans bytes 0 to 2, the stub returns \<^verbatim>\<open>a\<close> followed by the first padding byte
  of the string's block.
\<close>
lemma node_text_reads_past_a_short_source:
  "bytes_at
     (fst (snd (caml_ts_node_text toy_api (toy_alloc_small 32752) toy_root 28672 toy_memory_a
        (toy_parsed 15 ''ab'')))) 32752 2 = [CHR ''a'', CHR 0x00]"
proof -
  have "bytes_at
      (fst (snd (caml_ts_node_text toy_api (toy_alloc_small 32752) toy_root 28672 toy_memory_a
         (toy_parsed 15 ''ab'')))) 32752 2 =
      bytes_at (snd (toy_alloc_small 32752 2 toy_memory_a)) 28672 2"
    by (simp add: node_text_eq Let_def toy_root_span toy_alloc_address memcpy_bytes [of _ _ 2, simplified])
  then show ?thesis
    by (simp add: Let_def toy_root_span toy_short_memory toy_alloc_address)
qed

subsection \<open>The error test\<close>

lemma of_char_eq_0_iff: "(of_char c :: nat) = 0 \<longleftrightarrow> c = CHR 0x00"
  using of_char_eq_iff [of c "CHR 0x00", where ?'a = nat] by simp

lemma int_of_char_eq_0_iff: "(of_char c :: int) = 0 \<longleftrightarrow> c = CHR 0x00"
  using of_char_eq_iff [of c "CHR 0x00", where ?'a = int] by simp

lemma strcmp_eq_0_iff:
  "CHR 0x00 \<notin> set a \<Longrightarrow> CHR 0x00 \<notin> set b \<Longrightarrow> strcmp a b = 0 \<longleftrightarrow> a = b"
  by (induction a b rule: strcmp.induct)
    (auto simp add: int_of_char_eq_0_iff of_char_eq_0_iff)

lemma strcmp_stops_at_NUL: "strcmp (a @ CHR 0x00 # x) (a @ CHR 0x00 # y) = 0"
  by (induction a) simp_all

text \<open>
  Claim C10. For a node whose type is the C string \<open>type\<close> (a string holds no NUL byte),
  \<^verbatim>\<open>caml_ts_node_is_error\<close> returns true if and only if \<open>type\<close> is exactly \<^verbatim>\<open>ERROR\<close>. The
  answer does not depend on \<^verbatim>\<open>ts_node_has_error\<close> or \<^verbatim>\<open>ts_node_is_missing\<close>: replacing
  them by any other functions leaves the stub's result unchanged.
\<close>
theorem node_is_error_iff_type_is_ERROR:
  assumes "ts_node_type api (node_val v_node) (lib w) = Some type"
    and "CHR 0x00 \<notin> set type"
  shows "fst (caml_ts_node_is_error api v_node w) = Inr (type = ''ERROR'')
         \<and> caml_ts_node_is_error (api\<lparr>ts_node_has_error := h, ts_node_is_missing := m\<rparr>) v_node w
             = caml_ts_node_is_error api v_node w"
proof -
  have "CHR 0x00 \<notin> set ''ERROR''"
    by simp
  with assms(2) have "strcmp type ''ERROR'' = 0 \<longleftrightarrow> type = ''ERROR''"
    by (rule strcmp_eq_0_iff)
  with assms(1) show ?thesis
    by (simp add: caml_ts_node_is_error_def)
qed

text \<open>Claim C10, witness: in the tree of \<^verbatim>\<open>ab\<close> the \<^verbatim>\<open>ERROR\<close> child is an error
  node; the root, of type \<^verbatim>\<open>source_file\<close>, is not, although \<open>has_error\<close> holds of it.\<close>
theorem node_is_error_iff_type_is_ERROR_witness:
  "ts_node_type toy_api (node_val toy_error_child) (lib (toy_parsed 15 ''ab'')) = Some ''ERROR''
   \<and> CHR 0x00 \<notin> set ''ERROR''
   \<and> fst (caml_ts_node_is_error toy_api toy_error_child (toy_parsed 15 ''ab'')) = Inr True
   \<and> ts_node_type toy_api (node_val toy_root) (lib (toy_parsed 15 ''ab'')) = Some ''source_file''
   \<and> CHR 0x00 \<notin> set ''source_file''
   \<and> fst (caml_ts_node_is_error toy_api toy_root (toy_parsed 15 ''ab'')) = Inr False
   \<and> fst (caml_ts_node_has_error toy_api toy_root (toy_parsed 15 ''ab'')) = Inr True"
proof -
  have e: "CHR 0x00 \<notin> set ''ERROR''" and s: "CHR 0x00 \<notin> set ''source_file''"
    by simp_all
  show ?thesis
    using node_is_error_iff_type_is_ERROR [OF toy_types(1) e]
      node_is_error_iff_type_is_ERROR [OF toy_types(2) s] toy_types toy_root_has_error
    by simp
qed

end
